theory Spec2Isabelle
  imports Complex_Main
begin

section \<open>Phase 1: the polling loop of \<open>price_pulse.py\<close>\<close>

subsection \<open>Exceptions\<close>

text \<open>
  The exception classes that the code of \<open>price_pulse.py\<close> and the library calls it makes
  can raise. \<open>Timeout\<close>, \<open>ConnectionError\<close>, \<open>HTTPError\<close> and \<open>JSONDecodeError\<close> are the
  classes of \<open>requests.exceptions\<close>; all four derive from \<open>RequestException\<close>, and
  \<open>JSONDecodeError\<close> derives from \<open>ValueError\<close> as well. \<open>KeyError\<close> derives from
  \<open>LookupError\<close>, \<open>OverflowError\<close> and \<open>ZeroDivisionError\<close> from \<open>ArithmeticError\<close>,
  \<open>FileNotFoundError\<close> and \<open>IsADirectoryError\<close> (raised in phase 2) from \<open>OSError\<close>; none
  of these, nor \<open>TypeError\<close>, is a \<open>ValueError\<close>.
\<close>

datatype py_exc =
    Timeout
  | ConnectionError
  | HTTPError nat
  | JSONDecodeError
  | ValueError
  | KeyError string
  | TypeError
  | OverflowError
  | ZeroDivisionError
  | FileNotFoundError
  | IsADirectoryError

text \<open>\<open>isinstance(e, requests.RequestException)\<close> and \<open>isinstance(e, ValueError)\<close>.\<close>

fun is_RequestException :: "py_exc \<Rightarrow> bool" where
  "is_RequestException Timeout = True"
| "is_RequestException ConnectionError = True"
| "is_RequestException (HTTPError _) = True"
| "is_RequestException JSONDecodeError = True"
| "is_RequestException _ = False"

fun is_ValueError :: "py_exc \<Rightarrow> bool" where
  "is_ValueError ValueError = True"
| "is_ValueError JSONDecodeError = True"
| "is_ValueError _ = False"

text \<open>The clause \<open>except (requests.RequestException, ValueError)\<close> of \<open>main\<close>.\<close>

definition caught :: "py_exc \<Rightarrow> bool" where
  "caught e = (is_RequestException e \<or> is_ValueError e)"

subsection \<open>Responses\<close>

text \<open>
  What \<open>resp.json()\<close> can return. Python's \<open>int\<close> and \<open>float\<close> are both \<open>JNum\<close>, over the
  reals: the rounding of floating-point arithmetic is not modelled. A JSON object is the
  list of its members in the order of the text; a repeated key takes its last value.
\<close>

datatype json =
    JNull
  | JBool bool
  | JNum real
  | JStr string
  | JArr "json list"
  | JObj "(string \<times> json) list"

text \<open>
  The outcome of \<open>requests.get(API_URL, params=PARAMS, timeout=10)\<close>: the request times
  out, the connection fails, or a response arrives with a status code and a body, which
  is \<open>Some\<close> of the value it decodes to, or \<open>None\<close> when it is not JSON.
\<close>

datatype http_result =
    NetTimeout
  | NetConnectionError
  | Response nat "json option"

text \<open>\<open>data[key]\<close> for a string key: only a dict that has the key gives a value.\<close>

fun getitem :: "json \<Rightarrow> string \<Rightarrow> py_exc + json" where
  "getitem (JObj kvs) k =
     (case map_of (rev kvs) k of None \<Rightarrow> Inl (KeyError k) | Some v \<Rightarrow> Inr v)"
| "getitem _ k = Inl TypeError"

text \<open>The number a value stands for in arithmetic and in the format \<open>,.2f\<close>: \<open>bool\<close> is an \<open>int\<close>.\<close>

fun num_of :: "json \<Rightarrow> real option" where
  "num_of (JNum r) = Some r"
| "num_of (JBool b) = Some (if b then 1 else 0)"
| "num_of _ = None"

text \<open>
  \<open>datetime.utcfromtimestamp(ts_unix).strftime(...)\<close>. The text of the timestamp is a
  function of the number of seconds, and the model keeps the number. Outside the range of
  \<open>time_t\<close> the call raises \<open>OverflowError\<close>, outside the years 1 to 9999
  \<open>ValueError\<close>, on a value that is not a number \<open>TypeError\<close>.
\<close>

definition utcfromtimestamp :: "json \<Rightarrow> py_exc + real" where
  "utcfromtimestamp ts =
     (case num_of ts of
        None \<Rightarrow> Inl TypeError
      | Some r \<Rightarrow>
          if r < - (2 ^ 63) \<or> 2 ^ 63 \<le> r then Inl OverflowError
          else if r < - 62135596800 \<or> 253402300800 \<le> r then Inl ValueError
          else Inr r)"

text \<open>\<open>resp.raise_for_status()\<close> and \<open>resp.json()\<close>.\<close>

definition raise_for_status :: "nat \<Rightarrow> py_exc option" where
  "raise_for_status code = (if 400 \<le> code \<and> code < 600 then Some (HTTPError code) else None)"

text \<open>
  \<open>fetch_price\<close>, as a function of what the network call gives: the price as it stands in
  the response (of any JSON type: the function does not check it) and the timestamp.
\<close>

definition fetch_price :: "http_result \<Rightarrow> py_exc + (json \<times> real)" where
  "fetch_price r =
     (case r of
        NetTimeout \<Rightarrow> Inl Timeout
      | NetConnectionError \<Rightarrow> Inl ConnectionError
      | Response code body \<Rightarrow>
          (case raise_for_status code of
             Some e \<Rightarrow> Inl e
           | None \<Rightarrow>
               (case body of
                  None \<Rightarrow> Inl JSONDecodeError
                | Some data \<Rightarrow>
                    (case getitem data ''bitcoin'' of
                       Inl e \<Rightarrow> Inl e
                     | Inr coin \<Rightarrow>
                         (case getitem coin ''usd'' of
                            Inl e \<Rightarrow> Inl e
                          | Inr price \<Rightarrow>
                              (case getitem coin ''last_updated_at'' of
                                 Inl e \<Rightarrow> Inl e
                               | Inr ts_unix \<Rightarrow>
                                   (case utcfromtimestamp ts_unix of
                                      Inl e \<Rightarrow> Inl e
                                    | Inr dt \<Rightarrow> Inr (price, dt))))))))"

subsection \<open>The rolling window\<close>

text \<open>
  \<open>deque(maxlen=n).append(x)\<close>: the element goes to the right end, and when the deque then
  holds more than \<open>maxlen\<close> elements the leftmost one is dropped.
\<close>

definition deque_append :: "nat \<Rightarrow> 'a list \<Rightarrow> 'a \<Rightarrow> 'a list" where
  "deque_append maxlen xs x = (let ys = xs @ [x] in if maxlen < length ys then tl ys else ys)"

text \<open>\<open>sum(xs)\<close>: starts from 0 and adds from the left; adding a non-number raises.\<close>

fun sum_from :: "real \<Rightarrow> json list \<Rightarrow> py_exc + real" where
  "sum_from acc [] = Inr acc"
| "sum_from acc (x # xs) =
     (case num_of x of None \<Rightarrow> Inl TypeError | Some v \<Rightarrow> sum_from (acc + v) xs)"

definition py_sum :: "json list \<Rightarrow> py_exc + real" where
  "py_sum xs = sum_from 0 xs"

text \<open>\<open>a / len(xs)\<close>.\<close>

definition div_len :: "real \<Rightarrow> 'a list \<Rightarrow> py_exc + real" where
  "div_len a xs = (if length xs = 0 then Inl ZeroDivisionError else Inr (a / real (length xs)))"

text \<open>
  The format \<open>,.2f\<close> of the status line, applied to a value: the number that is printed.
  A string raises \<open>ValueError\<close> (unknown format code), any other non-number \<open>TypeError\<close>.
\<close>

fun format_2f :: "json \<Rightarrow> py_exc + real" where
  "format_2f (JNum r) = Inr r"
| "format_2f (JBool b) = Inr (if b then 1 else 0)"
| "format_2f (JStr s) = Inl ValueError"
| "format_2f _ = Inl TypeError"

text \<open>
  \<open>sum(price_window) / len(price_window) if price_window else price\<close>: the value of
  \<open>sma\<close>, still unformatted in the second branch.
\<close>

definition compute_sma :: "json list \<Rightarrow> json \<Rightarrow> py_exc + json" where
  "compute_sma price_window price =
     (if price_window \<noteq> [] then
        (case py_sum price_window of
           Inl e \<Rightarrow> Inl e
         | Inr s \<Rightarrow> (case div_len s price_window of Inl e \<Rightarrow> Inl e | Inr q \<Rightarrow> Inr (JNum q)))
      else Inr price)"

subsection \<open>State, time and output\<close>

text \<open>
  What the loop does that can be observed, in order: the start of a fetch attempt (with
  the time on the clock), the status line (timestamp, price, SMA), the three log calls,
  and the two kinds of \<open>time.sleep\<close>: \<open>time.sleep(0.1)\<close> and \<open>time.sleep(backoff)\<close>.
\<close>

datatype action =
    FetchAttempt nat
  | StatusLine real real real
  | LogWarning py_exc
  | LogRetrying int
  | SleepChunk
  | SleepBackoff int
  | LogError

text \<open>
  The local variables of \<open>main\<close>, and two components of the model: \<open>clock\<close>, the time in
  milliseconds since \<open>main\<close> started, and \<open>trace\<close>, the actions so far.
\<close>

record poller =
  price_window :: "json list"
  consecutive_failures :: int
  backoff :: int
  clock :: nat
  trace :: "action list"

text \<open>
  The global \<open>should_shutdown\<close>. \<open>SIGINT\<close> arrives at a time \<open>s\<close> on the clock, or never
  (\<open>None\<close>); the handler sets the flag and returns, so the flag reads true from \<open>s\<close> on.
  The handler raises nothing, so the call it interrupts (a sleep or the request) is
  resumed by the interpreter and runs to its end.
\<close>

definition should_shutdown :: "nat option \<Rightarrow> nat \<Rightarrow> bool" where
  "should_shutdown sd now = (case sd of None \<Rightarrow> False | Some s \<Rightarrow> s \<le> now)"

definition emit :: "action \<Rightarrow> poller \<Rightarrow> poller" where
  "emit a st = st\<lparr>trace := trace st @ [a]\<rparr>"

definition elapse :: "nat \<Rightarrow> poller \<Rightarrow> poller" where
  "elapse ms st = st\<lparr>clock := clock st + ms\<rparr>"

text \<open>
  \<open>for _ in range(n): if should_shutdown: break; time.sleep(0.1)\<close>, with \<open>n = 10\<close> in
  the source.
\<close>

fun interruptible_wait :: "nat option \<Rightarrow> nat \<Rightarrow> poller \<Rightarrow> poller" where
  "interruptible_wait sd 0 st = st"
| "interruptible_wait sd (Suc n) st =
     (if should_shutdown sd (clock st) then st
      else interruptible_wait sd n (elapse 100 (emit SleepChunk st)))"

subsection \<open>One iteration of the loop\<close>

text \<open>
  A fetch attempt of the script: how long the call takes, in milliseconds, and what it
  gives.
\<close>

type_synonym attempt = "nat \<times> http_result"

text \<open>
  The body of the \<open>try\<close>: the state as the body leaves it, and the exception it raised, if
  any. The window is appended to before the average and the status line are computed,
  and keeps the new element when they raise.
\<close>

definition try_body :: "nat option \<Rightarrow> poller \<Rightarrow> attempt \<Rightarrow> poller \<times> py_exc option" where
  "try_body sd st a =
     (let st1 = elapse (fst a) (emit (FetchAttempt (clock st)) st) in
      case fetch_price (snd a) of
        Inl e \<Rightarrow> (st1, Some e)
      | Inr (price, timestamp) \<Rightarrow>
          (let st2 = st1\<lparr>price_window := deque_append 10 (price_window st1) price\<rparr> in
           case compute_sma (price_window st2) price of
             Inl e \<Rightarrow> (st2, Some e)
           | Inr sma \<Rightarrow>
               (case format_2f price of
                  Inl e \<Rightarrow> (st2, Some e)
                | Inr p \<Rightarrow>
                    (case format_2f sma of
                       Inl e \<Rightarrow> (st2, Some e)
                     | Inr s \<Rightarrow>
                         (let st3 = emit (StatusLine timestamp p s) st2;
                              st4 = st3\<lparr>consecutive_failures := 0, backoff := 1\<rparr>
                          in (interruptible_wait sd 10 st4, None))))))"

text \<open>
  The \<open>except\<close> block. \<open>time.sleep\<close> of a negative number raises \<open>ValueError\<close>, which
  leaves the block (and \<open>main\<close>) as an uncaught exception.
\<close>

definition except_block :: "poller \<Rightarrow> py_exc \<Rightarrow> (py_exc \<times> poller) + poller" where
  "except_block st e =
     (let st1 = emit (LogWarning e) st;
          st2 = st1\<lparr>consecutive_failures := consecutive_failures st1 + 1\<rparr>;
          st3 = emit (LogRetrying (backoff st2)) st2
      in if backoff st3 < 0 then Inl (ValueError, st3)
         else
           (let st4 = elapse (nat (1000 * backoff st3)) (emit (SleepBackoff (backoff st3)) st3);
                st5 = st4\<lparr>backoff := min (backoff st4 * 2) 60\<rparr>
            in Inr (if consecutive_failures st5 \<ge> 5 then emit LogError st5 else st5)))"

text \<open>
  One pass through the body of the \<open>while\<close>: \<open>Inr\<close> the state at the next test of the
  loop, \<open>Inl\<close> the exception that leaves \<open>main\<close>.
\<close>

definition iteration :: "nat option \<Rightarrow> poller \<Rightarrow> attempt \<Rightarrow> (py_exc \<times> poller) + poller" where
  "iteration sd st a =
     (case try_body sd st a of
        (st', None) \<Rightarrow> Inr st'
      | (st', Some e) \<Rightarrow> if caught e then except_block st' e else Inl (e, st'))"

subsection \<open>The loop\<close>

text \<open>
  How a run over a finite script of fetch attempts ends: \<open>sys.exit(0)\<close> after the loop, an
  exception that nothing catches, or the loop still running when the script is used up.
\<close>

datatype ending = Exited int | Uncaught py_exc | Running

fun poll_loop :: "nat option \<Rightarrow> poller \<Rightarrow> attempt list \<Rightarrow> ending \<times> poller" where
  "poll_loop sd st [] = (if should_shutdown sd (clock st) then (Exited 0, st) else (Running, st))"
| "poll_loop sd st (a # script) =
     (if should_shutdown sd (clock st) then (Exited 0, st)
      else (case iteration sd st a of
              Inl (e, st') \<Rightarrow> (Uncaught e, st')
            | Inr st' \<Rightarrow> poll_loop sd st' script))"

definition initial :: poller where
  "initial = \<lparr>price_window = [], consecutive_failures = 0, backoff = 1, clock = 0, trace = []\<rparr>"

definition main :: "nat option \<Rightarrow> attempt list \<Rightarrow> ending \<times> poller" where
  "main sd script = poll_loop sd initial script"

subsection \<open>Projections of the trace\<close>

text \<open>The status lines (price and SMA), the backoff delays and the fetch attempts of a trace.\<close>

fun status_lines :: "action list \<Rightarrow> (real \<times> real) list" where
  "status_lines [] = []"
| "status_lines (StatusLine t p s # tr) = (p, s) # status_lines tr"
| "status_lines (_ # tr) = status_lines tr"

fun delays :: "action list \<Rightarrow> int list" where
  "delays [] = []"
| "delays (SleepBackoff d # tr) = d # delays tr"
| "delays (_ # tr) = delays tr"

fun fetch_times :: "action list \<Rightarrow> nat list" where
  "fetch_times [] = []"
| "fetch_times (FetchAttempt c # tr) = c # fetch_times tr"
| "fetch_times (_ # tr) = fetch_times tr"


section \<open>Phase 2: \<open>write_to_csv\<close>\<close>

text \<open>
  \<open>cmc_html_scraper.py\<close> and \<open>cmc_json_scraper.py\<close> hold the same \<open>write_to_csv\<close>. A coin is
  a dict from column names to texts, here the list of its items. The file system is a set
  of directories and a map from file names to contents; a CSV file's content is the list
  of its rows, a row the list of its fields (quoting is the \<open>csv\<close> module's business).
  The operating system grants every call that some state of the disk would let succeed:
  permissions, name clashes and full devices are outside the model. The calls that fail
  on every system are in it: \<open>mkdir\<close> of the empty path, and \<open>open\<close> for writing of a
  path that ends in a slash.
\<close>

type_synonym coin = "(string \<times> string) list"

datatype log_record = LogNoData | LogWrote nat string

record world =
  dirs :: "string set"
  files :: "string \<rightharpoonup> string list list"
  log :: "log_record list"

definition fieldnames :: "string list" where
  "fieldnames =
     [''Rank'', ''Name'', ''Symbol'', ''Price (USD)'', ''24h % Change'', ''Market Cap (USD)'']"

text \<open>
  \<open>os.path.dirname\<close> (\<open>posixpath\<close>): the path up to its last slash, with the slashes at the
  end of that stripped unless it consists of slashes only.
\<close>

definition dirname :: "string \<Rightarrow> string" where
  "dirname p =
     (let head = rev (dropWhile (\<lambda>c. c \<noteq> CHR ''/'') (rev p))
      in if head \<noteq> [] \<and> head \<noteq> replicate (length head) (CHR ''/'')
         then rev (dropWhile (\<lambda>c. c = CHR ''/'') (rev head))
         else head)"

text \<open>\<open>os.makedirs(name, exist_ok=True)\<close>.\<close>

definition makedirs :: "string \<Rightarrow> world \<Rightarrow> py_exc + world" where
  "makedirs name w =
     (if name = [] then Inl FileNotFoundError else Inr (w\<lparr>dirs := insert name (dirs w)\<rparr>))"

text \<open>\<open>open(filename, "w", ...)\<close>: the file is created or truncated.\<close>

definition open_w :: "string \<Rightarrow> world \<Rightarrow> py_exc + world" where
  "open_w filename w =
     (if filename = [] then Inl FileNotFoundError
      else if last filename = CHR ''/'' then Inl IsADirectoryError
      else Inr (w\<lparr>files := (files w)(filename \<mapsto> [])\<rparr>))"

text \<open>
  \<open>DictWriter._dict_to_list\<close> with the defaults \<open>extrasaction='raise'\<close> and \<open>restval=''\<close>: a
  key that is no field name raises \<open>ValueError\<close>, a field the dict lacks is written empty.
\<close>

definition dict_to_list :: "string list \<Rightarrow> coin \<Rightarrow> py_exc + string list" where
  "dict_to_list fnames rowdict =
     (let wrong_fields = filter (\<lambda>k. k \<notin> set fnames) (map fst rowdict)
      in if wrong_fields \<noteq> [] then Inl ValueError
         else Inr (map (\<lambda>k. case map_of rowdict k of None \<Rightarrow> [] | Some v \<Rightarrow> v) fnames))"

text \<open>
  \<open>writer.writerows(coins)\<close> onto the rows already in the file: the rows are converted and
  written one by one, so those before a bad dict are in the file when it raises.
\<close>

fun writerows :: "string list \<Rightarrow> coin list \<Rightarrow> string list list \<Rightarrow> string list list \<times> py_exc option" where
  "writerows fnames [] content = (content, None)"
| "writerows fnames (d # ds) content =
     (case dict_to_list fnames d of
        Inl e \<Rightarrow> (content, Some e)
      | Inr r \<Rightarrow> writerows fnames ds (content @ [r]))"

text \<open>
  \<open>write_to_csv\<close>: the world it leaves and the exception it raised, if any. The \<open>with\<close>
  block closes the file on both ways out, so what was written is in the file.
\<close>

definition write_to_csv :: "coin list \<Rightarrow> string \<Rightarrow> world \<Rightarrow> world \<times> py_exc option" where
  "write_to_csv coins filename w =
     (if coins = [] then (w\<lparr>log := log w @ [LogNoData]\<rparr>, None)
      else
        (case makedirs (dirname filename) w of
           Inl e \<Rightarrow> (w, Some e)
         | Inr w1 \<Rightarrow>
             (case open_w filename w1 of
                Inl e \<Rightarrow> (w1, Some e)
              | Inr w2 \<Rightarrow>
                  (let header = [fieldnames];
                       (content, exc) = writerows fieldnames coins header;
                       w3 = w2\<lparr>files := (files w2)(filename \<mapsto> content)\<rparr>
                   in case exc of
                        Some e \<Rightarrow> (w3, Some e)
                      | None \<Rightarrow> (w3\<lparr>log := log w3 @ [LogWrote (length coins) filename]\<rparr>, None)))))"

definition empty_world :: world where
  "empty_world = \<lparr>dirs = {}, files = Map.empty, log = []\<rparr>"

section \<open>Notions used in the statements\<close>

text \<open>
  A fetch attempt fails when \<open>fetch_price\<close> raises an exception of a class that the
  \<open>except\<close> clause of \<open>main\<close> names.
\<close>

definition fetch_fails :: "attempt \<Rightarrow> bool" where
  "fetch_fails a = (case fetch_price (snd a) of Inl e \<Rightarrow> caught e | Inr _ \<Rightarrow> False)"

text \<open>A response of the shape that \<open>fetch_price\<close> expects, with a price and a timestamp.\<close>

definition good_response :: "real \<Rightarrow> real \<Rightarrow> http_result" where
  "good_response price ts =
     Response 200 (Some (JObj [(''bitcoin'',
       JObj [(''usd'', JNum price), (''last_updated_at'', JNum ts)])]))"

text \<open>
  The state after an iteration whose fetch failed with \<open>e\<close>, written out field by field.
\<close>

definition after_failure :: "poller \<Rightarrow> attempt \<Rightarrow> py_exc \<Rightarrow> poller" where
  "after_failure st a e =
     st\<lparr>consecutive_failures := consecutive_failures st + 1,
        backoff := min (backoff st * 2) 60,
        clock := clock st + fst a + nat (1000 * backoff st),
        trace := trace st @ [FetchAttempt (clock st), LogWarning e, LogRetrying (backoff st),
                   SleepBackoff (backoff st)]
                 @ (if 5 \<le> consecutive_failures st + 1 then [LogError] else [])\<rparr>"

section \<open>Properties of the polling loop\<close>

subsection \<open>Traces and the loop\<close>

lemma status_lines_append: "status_lines (xs @ ys) = status_lines xs @ status_lines ys"
  by (induction xs rule: status_lines.induct) simp_all

lemma delays_append: "delays (xs @ ys) = delays xs @ delays ys"
  by (induction xs rule: delays.induct) simp_all

lemma fetch_times_append: "fetch_times (xs @ ys) = fetch_times xs @ fetch_times ys"
  by (induction xs rule: fetch_times.induct) simp_all

lemma wait_fields:
  "price_window (interruptible_wait sd n st) = price_window st"
  "consecutive_failures (interruptible_wait sd n st) = consecutive_failures st"
  "backoff (interruptible_wait sd n st) = backoff st"
  "status_lines (trace (interruptible_wait sd n st)) = status_lines (trace st)"
  "delays (trace (interruptible_wait sd n st)) = delays (trace st)"
  "fetch_times (trace (interruptible_wait sd n st)) = fetch_times (trace st)"
  by (induction sd n st rule: interruptible_wait.induct;
      simp add: emit_def elapse_def status_lines_append delays_append fetch_times_append)+

lemma poll_loop_append:
  "poll_loop sd st (xs @ ys) =
     (case poll_loop sd st xs of (Running, st') \<Rightarrow> poll_loop sd st' ys | r \<Rightarrow> r)"
proof (induction xs arbitrary: st)
  case Nil
  show ?case by (cases ys) simp_all
next
  case (Cons a xs)
  show ?case by (simp add: Cons.IH split: sum.splits prod.splits)
qed

subsection \<open>Iterations that fail, iterations that succeed\<close>

lemma iteration_failure:
  assumes "fetch_price (snd a) = Inl e" "caught e" "0 \<le> backoff st"
  shows "iteration sd st a = Inr (after_failure st a e)"
  using assms
  by (simp add: iteration_def try_body_def except_block_def emit_def elapse_def Let_def
      after_failure_def)

lemma fetch_failsE:
  assumes "fetch_fails a"
  obtains e where "fetch_price (snd a) = Inl e" "caught e"
  using assms by (auto simp: fetch_fails_def split: sum.splits)

subsection \<open>Runs of failures: backoff and the failure count\<close>

lemma min_double: "0 \<le> (b::int) \<Longrightarrow> min (min (b * 2) 60 * 2 ^ k) 60 = min (b * 2 ^ Suc k) 60"
proof -
  assume b: "0 \<le> b"
  have p: "(1::int) \<le> 2 ^ k" by simp
  show ?thesis
  proof (cases "b * 2 \<le> 60")
    case True
    then show ?thesis by (simp add: min_def mult.assoc)
  next
    case False
    then have big: "60 < b * 2" by simp
    have "b * 2 * 1 \<le> b * 2 * 2 ^ k" using b p by (intro mult_left_mono) auto
    then have l: "60 \<le> b * 2 * 2 ^ k" using big by linarith
    have "(60::int) * 1 \<le> 60 * 2 ^ k" using p by (intro mult_left_mono) auto
    then have r: "(60::int) \<le> 60 * 2 ^ k" by simp
    have A: "min (b * 2) 60 = 60" using big by (intro min_absorb2) simp
    have B: "min (60 * 2 ^ k) 60 = (60::int)" using r by (rule min_absorb2)
    have e: "b * 2 ^ Suc k = b * 2 * 2 ^ k" by simp
    have C: "min (b * 2 ^ Suc k) 60 = 60" unfolding e using l by (rule min_absorb2)
    show ?thesis by (simp only: A B C)
  qed
qed

lemma map_upt_shift: "map f [0..<Suc n] = f 0 # map (\<lambda>k. f (Suc k)) [0..<n]"
  by (simp add: upt_conv_Cons map_Suc_upt [symmetric] del: upt_Suc)

lemma failures_run:
  assumes "\<forall>a\<in>set fs. fetch_fails a" "0 \<le> backoff st" "backoff st \<le> 60"
  shows "\<exists>st'. poll_loop None st fs = (Running, st')
           \<and> price_window st' = price_window st
           \<and> status_lines (trace st') = status_lines (trace st)
           \<and> consecutive_failures st' = consecutive_failures st + int (length fs)
           \<and> 0 \<le> backoff st' \<and> backoff st' \<le> 60
           \<and> delays (trace st') =
               delays (trace st) @ map (\<lambda>k. min (backoff st * 2 ^ k) 60) [0..<length fs]"
  using assms
proof (induction fs arbitrary: st)
  case Nil
  then show ?case by (simp add: should_shutdown_def)
next
  case (Cons a fs)
  from Cons.prems obtain e where e: "fetch_price (snd a) = Inl e" "caught e"
    by (auto elim: fetch_failsE)
  let ?st1 = "after_failure st a e"
  have it: "iteration None st a = Inr ?st1"
    using e Cons.prems by (simp add: iteration_failure)
  have b1: "0 \<le> backoff ?st1" "backoff ?st1 \<le> 60" "backoff ?st1 = min (backoff st * 2) 60"
    using Cons.prems by (simp_all add: after_failure_def)
  from Cons.IH [of ?st1] Cons.prems b1 obtain st' where
    run: "poll_loop None ?st1 fs = (Running, st')"
    and w: "price_window st' = price_window ?st1"
    and sl: "status_lines (trace st') = status_lines (trace ?st1)"
    and cf: "consecutive_failures st' = consecutive_failures ?st1 + int (length fs)"
    and bo: "0 \<le> backoff st'" "backoff st' \<le> 60"
    and dl: "delays (trace st') =
               delays (trace ?st1) @ map (\<lambda>k. min (backoff ?st1 * 2 ^ k) 60) [0..<length fs]"
    by auto
  have d1: "delays (trace ?st1) = delays (trace st) @ [backoff st]"
    by (simp add: after_failure_def delays_append)
  have s1: "status_lines (trace ?st1) = status_lines (trace st)"
    by (simp add: after_failure_def status_lines_append)
  have m: "map (\<lambda>k. min (backoff ?st1 * 2 ^ k) 60) [0..<length fs]
             = map (\<lambda>k. min (backoff st * 2 ^ Suc k) 60) [0..<length fs]"
    using Cons.prems(2) by (simp only: b1(3) min_double)
  have first: "min (backoff st * 2 ^ 0) 60 = backoff st"
    using Cons.prems(3) by simp
  have "delays (trace st') =
          delays (trace st) @ map (\<lambda>k. min (backoff st * 2 ^ k) 60) [0..<length (a # fs)]"
    unfolding dl d1 m list.size
    using first by (simp add: map_upt_shift del: upt_Suc power_Suc)
  moreover have "poll_loop None st (a # fs) = (Running, st')"
    using it run by (simp add: should_shutdown_def)
  moreover have "price_window st' = price_window st"
    using w by (simp add: after_failure_def)
  moreover have "consecutive_failures st' = consecutive_failures st + int (length (a # fs))"
    using cf by (simp add: after_failure_def)
  ultimately show ?case using bo sl s1 by auto
qed


lemma try_body_success:
  assumes "snd (try_body sd st a) = None"
  shows "iteration sd st a = Inr (fst (try_body sd st a))"
    and "consecutive_failures (fst (try_body sd st a)) = 0"
    and "backoff (fst (try_body sd st a)) = 1"
    and "delays (trace (fst (try_body sd st a))) = delays (trace st)"
proof -
  show "iteration sd st a = Inr (fst (try_body sd st a))"
    using assms by (cases "try_body sd st a") (simp add: iteration_def)
  show "consecutive_failures (fst (try_body sd st a)) = 0"
    using assms
    by (auto simp: try_body_def Let_def wait_fields emit_def elapse_def split: sum.splits prod.splits)
  show "backoff (fst (try_body sd st a)) = 1"
    using assms
    by (auto simp: try_body_def Let_def wait_fields emit_def elapse_def split: sum.splits prod.splits)
  show "delays (trace (fst (try_body sd st a))) = delays (trace st)"
    using assms
    by (auto simp: try_body_def Let_def wait_fields emit_def elapse_def delays_append
        split: sum.splits prod.splits)
qed

lemma failures_last:
  assumes "\<forall>a\<in>set fs. fetch_fails a" "fs \<noteq> []" "0 \<le> backoff st" "backoff st \<le> 60"
  shows "\<exists>st'. poll_loop None st fs = (Running, st')
           \<and> consecutive_failures st' = consecutive_failures st + int (length fs)
           \<and> (last (trace st') = LogError \<longleftrightarrow> 5 \<le> consecutive_failures st + int (length fs))"
proof -
  from assms(2) obtain gs f where fs: "fs = gs @ [f]"
    by (cases fs rule: rev_cases) auto
  from assms(1) fs have gs: "\<forall>a\<in>set gs. fetch_fails a" and f: "fetch_fails f" by auto
  from failures_run [OF gs assms(3,4)] obtain st1 where
    run: "poll_loop None st gs = (Running, st1)"
    and cf: "consecutive_failures st1 = consecutive_failures st + int (length gs)"
    and bo: "0 \<le> backoff st1"
    by blast
  from f obtain e where e: "fetch_price (snd f) = Inl e" "caught e"
    by (auto elim: fetch_failsE)
  let ?st' = "after_failure st1 f e"
  have it: "iteration None st1 f = Inr ?st'"
    using e bo by (simp add: iteration_failure)
  have "poll_loop None st fs = (Running, ?st')"
    unfolding fs by (simp add: poll_loop_append run it should_shutdown_def)
  moreover have "consecutive_failures ?st' = consecutive_failures st + int (length fs)"
    using cf by (simp add: after_failure_def fs)
  moreover have "last (trace ?st') = LogError \<longleftrightarrow> 5 \<le> consecutive_failures st1 + 1"
    by (simp add: after_failure_def)
  ultimately show ?thesis using cf by (auto simp: fs)
qed

text \<open>
  Claim C3. From a reset backoff state (\<open>backoff = 1\<close>), and with no shutdown requested, the
  delays slept after the 1st, 2nd, 3rd, ... of any run of consecutive failed fetch attempts
  are \<open>min (2 ^ k) 60\<close> for \<open>k = 0, 1, 2, ...\<close>, that is 1, 2, 4, 8, 16, 32, 60, 60, ...
  seconds, and the loop is still running afterwards. One successful iteration from any
  state resets the backoff: the failures that follow it are again waited for 1, 2, 4, ...
  seconds.
\<close>

theorem backoff_sequence:
  assumes "\<forall>a\<in>set fs. fetch_fails a"
  shows "(backoff st = 1 \<longrightarrow>
            (\<exists>st'. poll_loop None st fs = (Running, st')
               \<and> delays (trace st') =
                   delays (trace st) @ map (\<lambda>k. min (2 ^ k) 60) [0..<length fs]))
       \<and> (snd (try_body None st a) = None \<longrightarrow>
            (\<exists>st'. poll_loop None st (a # fs) = (Running, st')
               \<and> delays (trace st') =
                   delays (trace st) @ map (\<lambda>k. min (2 ^ k) 60) [0..<length fs]))"
proof (intro conjI impI)
  assume b: "backoff st = 1"
  from failures_run [OF assms, of st] b
  show "\<exists>st'. poll_loop None st fs = (Running, st')
          \<and> delays (trace st') = delays (trace st) @ map (\<lambda>k. min (2 ^ k) 60) [0..<length fs]"
    by auto
next
  assume ok: "snd (try_body None st a) = None"
  let ?st1 = "fst (try_body None st a)"
  note s = try_body_success [OF ok]
  from failures_run [OF assms, of ?st1] s(3) obtain st' where
    "poll_loop None ?st1 fs = (Running, st')"
    "delays (trace st') = delays (trace ?st1) @ map (\<lambda>k. min (2 ^ k) 60) [0..<length fs]"
    by auto
  then show "\<exists>st'. poll_loop None st (a # fs) = (Running, st')
          \<and> delays (trace st') = delays (trace st) @ map (\<lambda>k. min (2 ^ k) 60) [0..<length fs]"
    using s(1,4) by (simp add: should_shutdown_def)
qed

theorem backoff_sequence_witness:
  "delays (trace (snd (main None (replicate 9 (0, NetTimeout))))) = [1, 2, 4, 8, 16, 32, 60, 60, 60]
   \<and> delays (trace (snd (main None ((0, good_response 100 0) # replicate 3 (0, NetTimeout)))))
       = [1, 2, 4]"
proof -
  have f: "\<forall>a\<in>set (replicate n (0, NetTimeout)). fetch_fails a" for n
    by (simp add: fetch_fails_def fetch_price_def caught_def)
  have b: "backoff initial = 1" by (simp add: initial_def)
  have ok: "snd (try_body None initial (0, good_response 100 0)) = None" by code_simp
  have m9: "map (\<lambda>k. min (2 ^ k) 60) [0..<9] = [1, 2, 4, 8, 16, 32, 60, 60, 60 :: int]"
    by code_simp
  have m3: "map (\<lambda>k. min (2 ^ k) 60) [0..<3] = [1, 2, 4 :: int]"
    by code_simp
  have t: "trace initial = []" by (simp add: initial_def)
  from backoff_sequence [OF f [of 9], where st = initial] b obtain st' where
    "poll_loop None initial (replicate 9 (0, NetTimeout)) = (Running, st')"
    "delays (trace st') = delays (trace initial) @ map (\<lambda>k. min (2 ^ k) 60) [0..<9]"
    by auto
  then have one: "delays (trace (snd (main None (replicate 9 (0, NetTimeout)))))
      = [1, 2, 4, 8, 16, 32, 60, 60, 60]"
    by (simp add: main_def m9 t)
  from backoff_sequence [OF f [of 3], where st = initial and a = "(0, good_response 100 0)"] ok obtain st'' where
    "poll_loop None initial ((0, good_response 100 0) # replicate 3 (0, NetTimeout)) = (Running, st'')"
    "delays (trace st'') = delays (trace initial) @ map (\<lambda>k. min (2 ^ k) 60) [0..<3]"
    by auto
  then have two: "delays (trace (snd (main None ((0, good_response 100 0) # replicate 3 (0, NetTimeout)))))
       = [1, 2, 4]"
    by (simp add: main_def m3 t)
  from one two show ?thesis by simp
qed

text \<open>
  Claim C6. After \<open>n \<ge> 1\<close> consecutive failed fetch attempts that start from a reset state
  (and likewise after one successful iteration from any state, which resets the count),
  with no shutdown requested: the count of consecutive failures is \<open>n\<close>, the last
  failure has logged the error report of excessive failures exactly when \<open>n \<ge> 5\<close>, and
  the loop is still running.
\<close>

theorem excessive_failure_warning:
  assumes "\<forall>a\<in>set fs. fetch_fails a" "fs \<noteq> []"
  shows "(consecutive_failures st = 0 \<and> backoff st = 1 \<longrightarrow>
            (\<exists>st'. poll_loop None st fs = (Running, st')
               \<and> consecutive_failures st' = int (length fs)
               \<and> (last (trace st') = LogError \<longleftrightarrow> 5 \<le> length fs)))
       \<and> (snd (try_body None st a) = None \<longrightarrow>
            (\<exists>st'. poll_loop None st (a # fs) = (Running, st')
               \<and> consecutive_failures st' = int (length fs)
               \<and> (last (trace st') = LogError \<longleftrightarrow> 5 \<le> length fs)))"
proof (intro conjI impI)
  assume r: "consecutive_failures st = 0 \<and> backoff st = 1"
  from failures_last [OF assms, of st] r
  show "\<exists>st'. poll_loop None st fs = (Running, st')
               \<and> consecutive_failures st' = int (length fs)
               \<and> (last (trace st') = LogError \<longleftrightarrow> 5 \<le> length fs)"
    by auto
next
  assume ok: "snd (try_body None st a) = None"
  let ?st1 = "fst (try_body None st a)"
  note s = try_body_success [OF ok]
  from failures_last [OF assms, of ?st1] s(2,3) obtain st' where
    "poll_loop None ?st1 fs = (Running, st')"
    "consecutive_failures st' = int (length fs)"
    "last (trace st') = LogError \<longleftrightarrow> 5 \<le> length fs"
    by auto
  then show "\<exists>st'. poll_loop None st (a # fs) = (Running, st')
               \<and> consecutive_failures st' = int (length fs)
               \<and> (last (trace st') = LogError \<longleftrightarrow> 5 \<le> length fs)"
    using s(1) by (simp add: should_shutdown_def)
qed

theorem excessive_failure_warning_witness:
  "(last (trace (snd (main None (replicate 4 (0, NetTimeout))))) = LogError \<longleftrightarrow> False)
   \<and> (last (trace (snd (main None (replicate 5 (0, NetTimeout))))) = LogError \<longleftrightarrow> True)
   \<and> (last (trace (snd (main None (replicate 6 (0, NetTimeout))))) = LogError \<longleftrightarrow> True)
   \<and> (last (trace (snd (main None ((0, good_response 100 0) # replicate 2 (0, NetTimeout)))))
        = LogError \<longleftrightarrow> False)
   \<and> consecutive_failures
        (snd (main None ((0, good_response 100 0) # replicate 2 (0, NetTimeout)))) = 2"
proof -
  have f: "\<forall>a\<in>set (replicate n (0, NetTimeout)). fetch_fails a" for n
    by (simp add: fetch_fails_def fetch_price_def caught_def)
  have r: "consecutive_failures initial = 0 \<and> backoff initial = 1" by (simp add: initial_def)
  have ok: "snd (try_body None initial (0, good_response 100 0)) = None" by code_simp
  have ne: "replicate (Suc n) (0::nat, NetTimeout) \<noteq> []" for n by simp
  have n4: "replicate 4 (0::nat, NetTimeout) \<noteq> []" and n5: "replicate 5 (0::nat, NetTimeout) \<noteq> []"
    and n6: "replicate 6 (0::nat, NetTimeout) \<noteq> []" and n2: "replicate 2 (0::nat, NetTimeout) \<noteq> []"
    by (simp_all add: numeral_eq_Suc)
  have a: "last (trace (snd (main None (replicate 4 (0, NetTimeout))))) = LogError \<longleftrightarrow> False"
  proof -
    from excessive_failure_warning [OF f [of 4] n4, where st = initial, THEN conjunct1,
        rule_format, OF r]
    obtain st' where "poll_loop None initial (replicate 4 (0, NetTimeout)) = (Running, st')"
      "last (trace st') = LogError \<longleftrightarrow> 5 \<le> length (replicate 4 (0::nat, NetTimeout))"
      by blast
    then show ?thesis by (simp add: main_def)
  qed
  have b: "last (trace (snd (main None (replicate 5 (0, NetTimeout))))) = LogError \<longleftrightarrow> True"
  proof -
    from excessive_failure_warning [OF f [of 5] n5, where st = initial, THEN conjunct1,
        rule_format, OF r]
    obtain st' where "poll_loop None initial (replicate 5 (0, NetTimeout)) = (Running, st')"
      "last (trace st') = LogError \<longleftrightarrow> 5 \<le> length (replicate 5 (0::nat, NetTimeout))"
      by blast
    then show ?thesis by (simp add: main_def)
  qed
  have c: "last (trace (snd (main None (replicate 6 (0, NetTimeout))))) = LogError \<longleftrightarrow> True"
  proof -
    from excessive_failure_warning [OF f [of 6] n6, where st = initial, THEN conjunct1,
        rule_format, OF r]
    obtain st' where "poll_loop None initial (replicate 6 (0, NetTimeout)) = (Running, st')"
      "last (trace st') = LogError \<longleftrightarrow> 5 \<le> length (replicate 6 (0::nat, NetTimeout))"
      by blast
    then show ?thesis by (simp add: main_def)
  qed
  have d: "(last (trace (snd (main None ((0, good_response 100 0) # replicate 2 (0, NetTimeout)))))
        = LogError \<longleftrightarrow> False)
   \<and> consecutive_failures
        (snd (main None ((0, good_response 100 0) # replicate 2 (0, NetTimeout)))) = 2"
  proof -
    from excessive_failure_warning [OF f [of 2] n2, where st = initial
        and a = "(0, good_response 100 0)", THEN conjunct2, rule_format, OF ok]
    obtain st' where
      "poll_loop None initial ((0, good_response 100 0) # replicate 2 (0, NetTimeout))
         = (Running, st')"
      "consecutive_failures st' = int (length (replicate 2 (0::nat, NetTimeout)))"
      "last (trace st') = LogError \<longleftrightarrow> 5 \<le> length (replicate 2 (0::nat, NetTimeout))"
      by blast
    then show ?thesis by (simp add: main_def)
  qed
  from a b c d show ?thesis by blast
qed

subsection \<open>Fetch failures that the loop does not absorb\<close>

text \<open>
  Claim C1. A response with status 200 whose JSON body is the empty object lacks the
  expected field \<open>bitcoin\<close>: \<open>fetch_price\<close> raises \<open>KeyError\<close>, which the \<open>except\<close> clause does
  not name. The exception leaves \<open>main\<close>: the loop ends without any shutdown request, and
  the next attempt of the script, which would have succeeded, is never made.
\<close>

theorem missing_field_ends_loop:
  "main None [(0, Response 200 (Some (JObj []))), (0, good_response 100 0)]
     = (Uncaught (KeyError ''bitcoin''), initial\<lparr>trace := [FetchAttempt 0]\<rparr>)"
  by code_simp

subsection \<open>The backoff wait and shutdown\<close>

text \<open>
  Claim C2. Seven fetch attempts in a row time out (each at once, to keep the numbers
  plain). The seventh fails at 63 s and the loop sleeps its backoff of 60 s. A shutdown
  request at 63.001 s, one millisecond into that sleep, is honoured at 123 s only: the
  sleep runs its full duration.
\<close>

lemma seven_timeouts:
  "main (Some 63001)
     [(0, NetTimeout), (0, NetTimeout), (0, NetTimeout), (0, NetTimeout), (0, NetTimeout),
      (0, NetTimeout), (0, NetTimeout)] =
     (Exited 0,
      \<lparr>price_window = [], consecutive_failures = 7, backoff = 60, clock = 123000,
       trace =
         [FetchAttempt 0, LogWarning Timeout, LogRetrying 1, SleepBackoff 1,
          FetchAttempt 1000, LogWarning Timeout, LogRetrying 2, SleepBackoff 2,
          FetchAttempt 3000, LogWarning Timeout, LogRetrying 4, SleepBackoff 4,
          FetchAttempt 7000, LogWarning Timeout, LogRetrying 8, SleepBackoff 8,
          FetchAttempt 15000, LogWarning Timeout, LogRetrying 16, SleepBackoff 16, LogError,
          FetchAttempt 31000, LogWarning Timeout, LogRetrying 32, SleepBackoff 32, LogError,
          FetchAttempt 63000, LogWarning Timeout, LogRetrying 60, SleepBackoff 60, LogError]\<rparr>)"
  by (simp add: main_def initial_def iteration_def try_body_def fetch_price_def caught_def
      should_shutdown_def emit_def elapse_def except_block_def Let_def)

theorem backoff_wait_ignores_shutdown:
  "fst (main (Some 63001) (replicate 7 (0, NetTimeout))) = Exited 0
   \<and> fetch_times (trace (snd (main (Some 63001) (replicate 7 (0, NetTimeout)))))
        = [0, 1000, 3000, 7000, 15000, 31000, 63000]
   \<and> delays (trace (snd (main (Some 63001) (replicate 7 (0, NetTimeout)))))
        = [1, 2, 4, 8, 16, 32, 60]
   \<and> clock (snd (main (Some 63001) (replicate 7 (0, NetTimeout)))) = 123000"
proof -
  have "replicate 7 (0::nat, NetTimeout) =
     [(0, NetTimeout), (0, NetTimeout), (0, NetTimeout), (0, NetTimeout), (0, NetTimeout),
      (0, NetTimeout), (0, NetTimeout)]"
    by (simp add: numeral_eq_Suc)
  then show ?thesis by (simp add: seven_timeouts)
qed

end
